theory Spec2Isabelle
  imports Complex_Main "HOL-Library.Char_ord" "HOL-Library.List_Lexorder"
begin

section \<open>Python values, exceptions and keyword arguments\<close>

text \<open>
  The wrapper \<^verbatim>\<open>Prophet\<close> (src/neuralprophet/wrapper.py) passes dynamically typed
  values through to its superclass. The values that occur are modelled by \<open>pyval\<close>;
  a float is represented by the rational it denotes (the wrapper never computes with
  one: it only tests its truth value and passes it on), \<open>PNaN\<close> is the missing value
  that pandas returns for the maximum of an empty column, \<open>PDate\<close> a timestamp as a
  day number.
\<close>

datatype pyval =
    PNone
  | PBool bool
  | PInt int
  | PFloat rat
  | PNaN
  | PStr string
  | PDate int
  | PList "pyval list"

text \<open>Python's truth value of an object, as tested by \<^verbatim>\<open>if x or y\<close>.\<close>

fun truthy :: "pyval \<Rightarrow> bool" where
  "truthy PNone = False"
| "truthy (PBool b) = b"
| "truthy (PInt n) = (n \<noteq> 0)"
| "truthy (PFloat r) = (r \<noteq> 0)"
| "truthy PNaN = True"
| "truthy (PStr s) = (s \<noteq> [])"
| "truthy (PDate d) = True"
| "truthy (PList xs) = (xs \<noteq> [])"

text \<open>
  Exceptions. The first five are the Python exceptions that the wrapper's own code
  and its pandas operations raise; the last two are the error kinds that the
  specification names for the forecasting engine, whose code is not part of the
  sources.
\<close>

datatype pyerror =
    KeyError string
  | TypeError string
  | AttributeError string
  | ValueError string
  | NotImplementedError string
  | InvalidArgumentError
  | PrerequisiteError

type_synonym kwargs = "(string \<times> pyval) list"

text \<open>
  A call \<^verbatim>\<open>f(k1=v1, ..., **kwargs)\<close>: Python raises \<^verbatim>\<open>TypeError\<close> (multiple values
  for a keyword argument) when \<^verbatim>\<open>kwargs\<close> repeats one of the explicit keywords, and
  otherwise passes the explicit keywords followed by those of \<^verbatim>\<open>kwargs\<close>.
\<close>

definition py_repeated :: "string list \<Rightarrow> kwargs \<Rightarrow> pyerror + unit" where
  "py_repeated explicit extra =
     (case filter (\<lambda>k. k \<in> set explicit) (map fst extra) of
        [] \<Rightarrow> Inr ()
      | k # _ \<Rightarrow> Inl (TypeError k))"

definition py_keywords :: "kwargs \<Rightarrow> kwargs \<Rightarrow> pyerror + kwargs" where
  "py_keywords explicit extra =
     (case py_repeated (map fst explicit) extra of
        Inl e \<Rightarrow> Inl e
      | Inr _ \<Rightarrow> Inr (explicit @ extra))"

text \<open>\<^verbatim>\<open>del kwargs[k]\<close>, used by \<^verbatim>\<open>fit\<close> only when the key is present.\<close>

definition del_key :: "string \<Rightarrow> kwargs \<Rightarrow> kwargs" where
  "del_key k kw = filter (\<lambda>p. fst p \<noteq> k) kw"

section \<open>Strings\<close>

text \<open>\<^verbatim>\<open>sub in s\<close>: \<open>sub\<close> occurs somewhere in \<open>s\<close>.\<close>

fun str_contains :: "string \<Rightarrow> string \<Rightarrow> bool" where
  "str_contains sub [] = (sub = [])"
| "str_contains sub (c # cs) = (take (length sub) (c # cs) = sub \<or> str_contains sub cs)"

text \<open>
  \<^verbatim>\<open>s.replace(old, new)\<close>: every occurrence of \<open>old\<close>, found from the left and
  without overlaps, is replaced by \<open>new\<close>. For an empty \<open>old\<close> Python puts \<open>new\<close>
  before every character and at the end.
\<close>

function str_replace :: "string \<Rightarrow> string \<Rightarrow> string \<Rightarrow> string" where
  "str_replace old new [] = (if old = [] then new else [])"
| "str_replace old new (c # cs) =
     (if old = [] then new @ c # str_replace old new cs
      else if take (length old) (c # cs) = old
        then new @ str_replace old new (drop (length old) (c # cs))
        else c # str_replace old new cs)"
  by pat_completeness auto
termination
  by (relation "measure (\<lambda>(old, new, s). length s)") auto

section \<open>Data frames\<close>

text \<open>
  A pandas column is a typed series; a data frame is the list of its columns in order,
  each with its label. pandas lets a label repeat.
\<close>

datatype series =
    IntS "int list"
  | FloatS "rat list"
  | StrS "string list"
  | DateS "int list"

type_synonym frame = "(string \<times> series) list"

definition columns :: "frame \<Rightarrow> string list" where
  "columns df = map fst df"

text \<open>The columns that carry a label, in their order.\<close>

definition lookup_all :: "frame \<Rightarrow> string \<Rightarrow> series list" where
  "lookup_all df c = map snd (filter (\<lambda>p. fst p = c) df)"

text \<open>
  \<^verbatim>\<open>df[c]\<close> raises \<^verbatim>\<open>KeyError\<close> for a label that the frame does not have, is the
  column (a Series) for a label that it has once, and is the frame of all the columns
  of that label (a DataFrame) for a label that repeats.
\<close>

datatype selection =
    Column series
  | Columns "series list"

definition getitem :: "frame \<Rightarrow> string \<Rightarrow> pyerror + selection" where
  "getitem df c =
     (case lookup_all df c of
        [] \<Rightarrow> Inl (KeyError c)
      | [s] \<Rightarrow> Inr (Column s)
      | ss \<Rightarrow> Inr (Columns ss))"

text \<open>
  \<^verbatim>\<open>df[c] = v\<close>. A Series is written into every column labelled \<open>c\<close>, where it
  stands, and becomes a new last column when there is none. A DataFrame must have as
  many columns as the frame has columns labelled \<open>c\<close>, which it then replaces one by
  one; otherwise pandas raises \<^verbatim>\<open>ValueError\<close>, in particular when \<open>c\<close> is a new label.
\<close>

fun assign_each :: "frame \<Rightarrow> string \<Rightarrow> series list \<Rightarrow> frame" where
  "assign_each [] c ss = []"
| "assign_each (p # df) c [] = p # df"
| "assign_each (p # df) c (s # ss) =
     (if fst p = c then (c, s) # assign_each df c ss else p # assign_each df c (s # ss))"

definition setitem :: "frame \<Rightarrow> string \<Rightarrow> selection \<Rightarrow> pyerror + frame" where
  "setitem df c v =
     (case v of
        Column s \<Rightarrow>
          Inr (if c \<in> set (columns df)
               then map (\<lambda>p. if fst p = c then (c, s) else p) df
               else df @ [(c, s)])
      | Columns ss \<Rightarrow>
          (if length (lookup_all df c) = length ss
           then Inr (assign_each df c ss)
           else Inl (ValueError c)))"

text \<open>\<^verbatim>\<open>df.rename(columns=m)\<close>.\<close>

definition rename_columns :: "(string \<times> string) list \<Rightarrow> frame \<Rightarrow> frame" where
  "rename_columns m df =
     map (\<lambda>(c, s). ((case map_of m c of None \<Rightarrow> c | Some c' \<Rightarrow> c'), s)) df"

text \<open>\<^verbatim>\<open>df.drop(cs, axis=1, errors="ignore")\<close>: labels that are absent are skipped.\<close>

definition drop_columns :: "string list \<Rightarrow> frame \<Rightarrow> frame" where
  "drop_columns cs df = filter (\<lambda>(c, s). c \<notin> set cs) df"

text \<open>\<^verbatim>\<open>Series.unique()\<close>: the distinct values in the order of their first appearance.\<close>

fun unique :: "'a list \<Rightarrow> 'a list" where
  "unique [] = []"
| "unique (x # xs) = x # unique (filter (\<lambda>y. y \<noteq> x) xs)"

fun list_max :: "'a::linorder list \<Rightarrow> 'a option" where
  "list_max [] = None"
| "list_max (x # xs) = Some (fold max xs x)"

definition series_values :: "series \<Rightarrow> pyval list" where
  "series_values s =
     (case s of
        IntS xs \<Rightarrow> map PInt xs
      | FloatS xs \<Rightarrow> map PFloat xs
      | StrS xs \<Rightarrow> map PStr xs
      | DateS xs \<Rightarrow> map PDate xs)"

text \<open>\<^verbatim>\<open>Series.max()\<close>: the largest entry, and the missing value for an empty column.\<close>

definition series_max :: "series \<Rightarrow> pyval" where
  "series_max s =
     (case s of
        IntS xs \<Rightarrow> (case list_max xs of None \<Rightarrow> PNaN | Some m \<Rightarrow> PInt m)
      | FloatS xs \<Rightarrow> (case list_max xs of None \<Rightarrow> PNaN | Some m \<Rightarrow> PFloat m)
      | StrS xs \<Rightarrow> (case list_max xs of None \<Rightarrow> PNaN | Some m \<Rightarrow> PStr m)
      | DateS xs \<Rightarrow> (case list_max xs of None \<Rightarrow> PNaN | Some m \<Rightarrow> PDate m))"

text \<open>
  \<^verbatim>\<open>.unique()\<close> and \<^verbatim>\<open>.max()\<close> on what \<^verbatim>\<open>df[c]\<close> gave. A DataFrame has no method
  \<^verbatim>\<open>unique\<close>; its \<^verbatim>\<open>max()\<close> is the Series of the maxima of its columns, which is
  modelled as the list of them.
\<close>

definition selection_unique :: "selection \<Rightarrow> pyerror + pyval list" where
  "selection_unique v =
     (case v of
        Column s \<Rightarrow> Inr (unique (series_values s))
      | Columns ss \<Rightarrow> Inl (AttributeError ''unique''))"

definition selection_max :: "selection \<Rightarrow> pyval" where
  "selection_max v =
     (case v of
        Column s \<Rightarrow> series_max s
      | Columns ss \<Rightarrow> PList (map series_max ss))"

section \<open>The forecasting engine\<close>

text \<open>
  \<^verbatim>\<open>Prophet\<close> is a subclass of \<^verbatim>\<open>NeuralProphet\<close> (neuralprophet/forecaster.py), which
  is not part of the sources. The superclass methods that the wrapper calls are
  therefore parameters of the model: an engine over a state \<open>'s\<close> (the attributes the
  superclass owns). A method that runs on a constructed object returns the state it
  leaves behind together with its result or the exception it raised.
\<close>

record 's engine =
  np_init :: "kwargs \<Rightarrow> pyerror + 's"
  np_add_events :: "'s \<Rightarrow> pyval list \<Rightarrow> pyval \<Rightarrow> pyval \<Rightarrow> pyerror + 's"
  np_create_df_with_events :: "'s \<Rightarrow> frame \<Rightarrow> frame \<Rightarrow> 's \<times> (pyerror + frame)"
  np_fit :: "'s \<Rightarrow> frame \<Rightarrow> kwargs \<Rightarrow> 's \<times> (pyerror + frame)"
  np_predict :: "'s \<Rightarrow> frame \<Rightarrow> kwargs \<Rightarrow> 's \<times> (pyerror + frame)"
  np_make_future_dataframe ::
    "'s \<Rightarrow> frame option \<Rightarrow> frame option \<Rightarrow> int \<Rightarrow> bool \<Rightarrow> kwargs \<Rightarrow> 's \<times> (pyerror + frame)"

text \<open>
  What the wrapper hands to the engine is observed by instrumenting an engine: the
  traced engine behaves as the given one and keeps the list of the calls it received,
  each with its arguments.
\<close>

datatype np_call =
    NP_init kwargs
  | NP_add_events "pyval list" pyval pyval
  | NP_create_df_with_events frame frame
  | NP_fit frame kwargs
  | NP_predict frame kwargs
  | NP_make_future_dataframe "frame option" "frame option" int bool kwargs

definition record_call :: "np_call list \<Rightarrow> np_call \<Rightarrow> 's \<times> 'r \<Rightarrow> (np_call list \<times> 's) \<times> 'r" where
  "record_call tr c out = ((tr @ [c], fst out), snd out)"

definition traced :: "'s engine \<Rightarrow> (np_call list \<times> 's) engine" where
  "traced eng =
     \<lparr> np_init = (\<lambda>kw.
         case np_init eng kw of Inl e \<Rightarrow> Inl e | Inr s \<Rightarrow> Inr ([NP_init kw], s)),
       np_add_events = (\<lambda>st events lower_window upper_window.
         case np_add_events eng (snd st) events lower_window upper_window of
           Inl e \<Rightarrow> Inl e
         | Inr s \<Rightarrow> Inr (fst st @ [NP_add_events events lower_window upper_window], s)),
       np_create_df_with_events = (\<lambda>st df events_df.
         record_call (fst st) (NP_create_df_with_events df events_df)
           (np_create_df_with_events eng (snd st) df events_df)),
       np_fit = (\<lambda>st df kw.
         record_call (fst st) (NP_fit df kw) (np_fit eng (snd st) df kw)),
       np_predict = (\<lambda>st df kw.
         record_call (fst st) (NP_predict df kw) (np_predict eng (snd st) df kw)),
       np_make_future_dataframe = (\<lambda>st df events_df periods n_historic_predictions kw.
         record_call (fst st) (NP_make_future_dataframe df events_df periods n_historic_predictions kw)
           (np_make_future_dataframe eng (snd st) df events_df periods n_historic_predictions kw)) \<rparr>"

section \<open>The wrapper\<close>

subsection \<open>Construction\<close>

text \<open>The arguments of \<^verbatim>\<open>Prophet.__init__\<close>; \<open>default_args\<close> holds the defaults of its signature.\<close>

record init_args =
  growth :: pyval
  changepoints :: pyval
  n_changepoints :: pyval
  changepoint_range :: pyval
  yearly_seasonality :: pyval
  weekly_seasonality :: pyval
  daily_seasonality :: pyval
  holidays :: "frame option"
  seasonality_mode :: pyval
  seasonality_prior_scale :: pyval
  holidays_prior_scale :: pyval
  changepoint_prior_scale :: pyval
  mcmc_samples :: pyval
  interval_width :: pyval
  uncertainty_samples :: pyval
  stan_backend :: pyval
  kwargs :: kwargs

definition default_args :: init_args where
  "default_args =
     \<lparr> growth = PStr ''linear'', changepoints = PNone, n_changepoints = PInt 25,
       changepoint_range = PFloat (4 / 5), yearly_seasonality = PStr ''auto'',
       weekly_seasonality = PStr ''auto'', daily_seasonality = PStr ''auto'',
       holidays = None, seasonality_mode = PStr ''additive'',
       seasonality_prior_scale = PNone, holidays_prior_scale = PNone,
       changepoint_prior_scale = PNone, mcmc_samples = PNone,
       interval_width = PFloat (4 / 5), uncertainty_samples = PNone,
       stan_backend = PNone, kwargs = [] \<rparr>"

text \<open>Lines 75 to 84: the notices passed to \<^verbatim>\<open>log.info\<close>, in order.\<close>

definition unsupported_notices :: "init_args \<Rightarrow> string list" where
  "unsupported_notices a =
     (if truthy (seasonality_prior_scale a) \<or> truthy (holidays_prior_scale a)
         \<or> truthy (changepoint_prior_scale a)
      then [''Using `_prior_scale` is unsupported for regularisation in NeuralProphet, please use the `_reg` args instead.'']
      else [])
     @ (if truthy (mcmc_samples a) \<or> truthy (uncertainty_samples a)
        then [''Providing the number of samples for Bayesian inference or Uncertainty estimation is not required in NeuralProphet.'']
        else [])
     @ (if truthy (stan_backend a)
        then [''A stan_backend is not used in NeuralProphet. Please remove the parameter'']
        else [])"

text \<open>Lines 86 to 97: the explicit keywords of the call of the superclass constructor.\<close>

definition super_init_keywords :: "init_args \<Rightarrow> kwargs" where
  "super_init_keywords a =
     [(''growth'', growth a),
      (''changepoints'', changepoints a),
      (''n_changepoints'', n_changepoints a),
      (''changepoints_range'', changepoint_range a),
      (''yearly_seasonality'', yearly_seasonality a),
      (''weekly_seasonality'', weekly_seasonality a),
      (''daily_seasonality'', daily_seasonality a),
      (''seasonality_mode'', seasonality_mode a),
      (''prediction_interval'', interval_width a)]"

text \<open>
  Lines 101 to 103: the arguments of the one \<^verbatim>\<open>add_events\<close> call, evaluated from left
  to right; a missing column raises \<^verbatim>\<open>KeyError\<close>.
\<close>

definition holiday_events :: "frame \<Rightarrow> pyerror + (pyval list \<times> pyval \<times> pyval)" where
  "holiday_events hs =
     (case getitem hs ''holiday'' of Inl e \<Rightarrow> Inl e | Inr names \<Rightarrow>
      case selection_unique names of Inl e \<Rightarrow> Inl e | Inr events \<Rightarrow>
      case getitem hs ''lower_window'' of Inl e \<Rightarrow> Inl e | Inr lower \<Rightarrow>
      case getitem hs ''upper_window'' of Inl e \<Rightarrow> Inl e | Inr upper \<Rightarrow>
        Inr (events, selection_max lower, selection_max upper))"

text \<open>Lines 105 to 107: the copy of the holidays table kept as \<^verbatim>\<open>self.events_df\<close>.\<close>

definition holidays_events_df :: "frame \<Rightarrow> frame" where
  "holidays_events_df hs =
     drop_columns [''lower_window'', ''upper_window''] (rename_columns [(''holiday'', ''event'')] hs)"

text \<open>
  The object: the superclass's state, and the attributes that the wrapper sets.
  \<open>events_df = None\<close> stands for an object without the attribute
  (\<^verbatim>\<open>hasattr(self, "events_df")\<close> is false).
\<close>

record 's prophet =
  np :: 's
  events_df :: "frame option"
  name :: string
  history :: "frame option"
  train_holiday_names :: pyval

text \<open>Lines 99 to 107: the holidays become events of the engine.\<close>

definition handle_holidays :: "'s engine \<Rightarrow> 's \<Rightarrow> frame option \<Rightarrow> pyerror + ('s \<times> frame option)" where
  "handle_holidays eng s hol =
     (case hol of
        None \<Rightarrow> Inr (s, None)
      | Some hs \<Rightarrow>
          (case holiday_events hs of
             Inl e \<Rightarrow> Inl e
           | Inr (events, lower_window, upper_window) \<Rightarrow>
               (case np_add_events eng s events lower_window upper_window of
                  Inl e \<Rightarrow> Inl e
                | Inr s' \<Rightarrow> Inr (s', Some (holidays_events_df hs)))))"

text \<open>
  \<^verbatim>\<open>Prophet.__init__\<close> (lines 54 to 114). The result is the notices logged and either
  the exception that ended the construction or the object.
\<close>

definition Prophet_init :: "'s engine \<Rightarrow> init_args \<Rightarrow> string list \<times> (pyerror + 's prophet)" where
  "Prophet_init eng a =
     (unsupported_notices a,
      case py_keywords (super_init_keywords a) (kwargs a) of
        Inl e \<Rightarrow> Inl e
      | Inr kw \<Rightarrow>
          (case np_init eng kw of
             Inl e \<Rightarrow> Inl e
           | Inr s \<Rightarrow>
               (case handle_holidays eng s (holidays a) of
                  Inl e \<Rightarrow> Inl e
                | Inr (s', ev) \<Rightarrow>
                    Inr \<lparr> np = s', events_df = ev, name = ''Prophet'', history = None,
                          train_holiday_names = PNone \<rparr>)))"

subsection \<open>Fitting\<close>

text \<open>
  \<^verbatim>\<open>Prophet.fit\<close> (lines 161 to 198). A method returns the object as it leaves it and
  either the exception it raised or its result.
\<close>

definition fit :: "'s engine \<Rightarrow> 's prophet \<Rightarrow> frame \<Rightarrow> kwargs \<Rightarrow> 's prophet \<times> (pyerror + frame)" where
  "fit eng self df kw0 =
     (if ''cap'' \<in> set (columns df)
      then (self, Inl (NotImplementedError ''Saturating forecasts using cap is not supported in NeuralProphet.''))
      else
        (let kw = (if ''show_progress'' \<in> set (map fst kw0) then del_key ''show_progress'' kw0 else kw0);
             (s1, r1) = (case events_df self of
                           None \<Rightarrow> (np self, Inr df)
                         | Some ev \<Rightarrow> np_create_df_with_events eng (np self) df ev)
         in case r1 of
              Inl e \<Rightarrow> (self\<lparr>np := s1\<rparr>, Inl e)
            | Inr df1 \<Rightarrow>
                (case np_fit eng s1 df1 kw of
                   (s2, Inl e) \<Rightarrow> (self\<lparr>np := s2\<rparr>, Inl e)
                 | (s2, Inr metrics_df) \<Rightarrow> (self\<lparr>np := s2, history := Some df1\<rparr>, Inr metrics_df))))"

subsection \<open>Prediction\<close>

text \<open>
  Lines 216 to 219: the loop runs over the labels that the engine's table had when the
  loop started, and reads and writes the table as it stands in each round.
\<close>

fun copy_event_columns :: "string list \<Rightarrow> frame \<Rightarrow> pyerror + frame" where
  "copy_event_columns [] df = Inr df"
| "copy_event_columns (column # rest) df =
     (if str_contains ''event_'' column
      then (case getitem df column of
              Inl e \<Rightarrow> Inl e
            | Inr v \<Rightarrow>
                (case setitem df (str_replace ''event_'' [] column) v of
                   Inl e \<Rightarrow> Inl e
                 | Inr df' \<Rightarrow> copy_event_columns rest df'))
      else copy_event_columns rest df)"

text \<open>
  \<^verbatim>\<open>Prophet.predict\<close> (lines 200 to 220). Without a frame the stored history is
  copied; \<^verbatim>\<open>self.history\<close> is \<^verbatim>\<open>None\<close> until a fit has succeeded, and \<^verbatim>\<open>None\<close> has no
  method \<^verbatim>\<open>copy\<close>.
\<close>

definition predict :: "'s engine \<Rightarrow> 's prophet \<Rightarrow> frame option \<Rightarrow> kwargs \<Rightarrow> 's prophet \<times> (pyerror + frame)" where
  "predict eng self df kw =
     (case (case df of
              Some d \<Rightarrow> Inr d
            | None \<Rightarrow> (case history self of
                         None \<Rightarrow> Inl (AttributeError ''copy'')
                       | Some h \<Rightarrow> Inr h)) of
        Inl e \<Rightarrow> (self, Inl e)
      | Inr df0 \<Rightarrow>
          (case np_predict eng (np self) df0 kw of
             (s1, Inl e) \<Rightarrow> (self\<lparr>np := s1\<rparr>, Inl e)
           | (s1, Inr df1) \<Rightarrow> (self\<lparr>np := s1\<rparr>, copy_event_columns (columns df1) df1)))"

subsection \<open>The future frame\<close>

text \<open>
  \<^verbatim>\<open>Prophet.make_future_dataframe\<close> (lines 236 to 268). The parameter \<^verbatim>\<open>freq\<close> is only
  compared with \<^verbatim>\<open>"M"\<close>; it is not passed on.
\<close>

definition make_future_dataframe ::
    "'s engine \<Rightarrow> 's prophet \<Rightarrow> int \<Rightarrow> string \<Rightarrow> bool \<Rightarrow> kwargs \<Rightarrow> 's prophet \<times> (pyerror + frame)" where
  "make_future_dataframe eng self periods0 freq include_history kw =
     (let periods = (if freq = ''M'' then periods0 * 30 else periods0) in
      case events_df self of
        Some ev \<Rightarrow>
          (case py_repeated [''df'', ''events_df'', ''periods'', ''n_historic_predictions''] kw of
             Inl e \<Rightarrow> (self, Inl e)
           | Inr _ \<Rightarrow>
               (case np_make_future_dataframe eng (np self) (history self) (Some ev) periods
                       include_history kw of
                  (s1, r) \<Rightarrow> (self\<lparr>np := s1\<rparr>, r)))
      | None \<Rightarrow>
          (case py_repeated [''df'', ''periods'', ''n_historic_predictions''] kw of
             Inl e \<Rightarrow> (self, Inl e)
           | Inr _ \<Rightarrow>
               (case np_make_future_dataframe eng (np self) (history self) None periods
                       include_history kw of
                  (s1, r) \<Rightarrow> (self\<lparr>np := s1\<rparr>, r))))"

section \<open>The engine's frame extension, from the specification\<close>

text \<open>
  Modelled from the spec: the engine's \<^verbatim>\<open>make_future_dataframe\<close> (the operation
  \<^verbatim>\<open>extend\<close> of section 4.2 with its failure policy) is missing from the sources. It
  fails with \<^verbatim>\<open>InvalidArgumentError\<close> for a non-positive number of periods and with
  \<^verbatim>\<open>PrerequisiteError\<close> for an empty history; otherwise it produces \<open>periods\<close> new
  timestamps that start right after the last one of the history, one base unit (day)
  apart, after the history's own timestamps when those are to be included.
\<close>

definition spec_extend :: "int list \<Rightarrow> int \<Rightarrow> bool \<Rightarrow> pyerror + int list" where
  "spec_extend hist periods includeHistory =
     (if periods \<le> 0 then Inl InvalidArgumentError
      else if hist = [] then Inl PrerequisiteError
      else Inr ((if includeHistory then hist else []) @ map (\<lambda>k. last hist + k) [1..periods]))"

text \<open>
  Modelled from the spec: the timestamps of a TimeSeriesFrame (section 3), read from
  the column \<^verbatim>\<open>ds\<close> that the wrapper's frames keep them in; no frame, and a frame
  without rows, is an empty history.
\<close>

definition frame_dates :: "frame option \<Rightarrow> int list" where
  "frame_dates df =
     (case df of
        None \<Rightarrow> []
      | Some f \<Rightarrow> (case map_of f ''ds'' of Some (DateS ds) \<Rightarrow> ds | _ \<Rightarrow> []))"

text \<open>
  Modelled from the spec: the engine's \<^verbatim>\<open>make_future_dataframe\<close> on frames, as
  \<open>spec_extend\<close> on their timestamps. The event covariates that the specification
  attaches to the extended frame are left out: no property below depends on them.
\<close>

definition spec_make_future_dataframe :: "frame option \<Rightarrow> int \<Rightarrow> bool \<Rightarrow> pyerror + frame" where
  "spec_make_future_dataframe df periods n_historic_predictions =
     (case spec_extend (frame_dates df) periods n_historic_predictions of
        Inl e \<Rightarrow> Inl e
      | Inr ds \<Rightarrow> Inr [(''ds'', DateS ds)])"

text \<open>
  Modelled from the spec: a stand-in for the engine, which is missing from the sources,
  for concrete runs. It extends frames as section 4.2 says. Of the other operations
  the specification fixes nothing that the runs below depend on: they accept what they
  are given (fitting returns an empty table of metrics, prediction returns the frame
  it was asked to predict on, so that a run can be given the engine's table).
\<close>

definition stand_in_engine :: "unit engine" where
  "stand_in_engine =
     \<lparr> np_init = (\<lambda>kw. Inr ()),
       np_add_events = (\<lambda>s events lower_window upper_window. Inr s),
       np_create_df_with_events = (\<lambda>s df ev. (s, Inr df)),
       np_fit = (\<lambda>s df kw. (s, Inr [])),
       np_predict = (\<lambda>s df kw. (s, Inr df)),
       np_make_future_dataframe = (\<lambda>s df ev periods n_historic_predictions kw.
         (s, spec_make_future_dataframe df periods n_historic_predictions)) \<rparr>"

text \<open>
  An engine that extends frames as the specification says; what its other operations
  do is left open.
\<close>

definition extends_as_specified :: "'s engine \<Rightarrow> bool" where
  "extends_as_specified eng =
     (\<forall>s df ev p n kw.
        snd (np_make_future_dataframe eng s df ev p n kw) = spec_make_future_dataframe df p n)"

section \<open>Observing a construction\<close>

text \<open>
  The calls that the handling of the holidays makes on the engine: none without a
  table, and otherwise one \<^verbatim>\<open>add_events\<close> call that registers all the names of the
  table with one pair of window bounds.
\<close>

definition holiday_calls :: "frame option \<Rightarrow> np_call list" where
  "holiday_calls hol =
     (case hol of
        None \<Rightarrow> []
      | Some hs \<Rightarrow>
          (case holiday_events hs of
             Inl e \<Rightarrow> []
           | Inr (events, lower_window, upper_window) \<Rightarrow>
               [NP_add_events events lower_window upper_window]))"

text \<open>
  The window that a list of engine calls registers for an event name: the bounds of
  the last \<^verbatim>\<open>add_events\<close> call that lists the name.
\<close>

fun registered_window :: "np_call list \<Rightarrow> pyval \<Rightarrow> (pyval \<times> pyval) option" where
  "registered_window [] n = None"
| "registered_window (NP_add_events events lower_window upper_window # cs) n =
     (case registered_window cs n of
        Some w \<Rightarrow> Some w
      | None \<Rightarrow> if n \<in> set events then Some (lower_window, upper_window) else None)"
| "registered_window (c # cs) n = registered_window cs n"

text \<open>The window that a successful construction has registered for an event name.\<close>

definition init_window :: "'s engine \<Rightarrow> init_args \<Rightarrow> pyval \<Rightarrow> (pyval \<times> pyval) option" where
  "init_window eng a n =
     (case snd (Prophet_init (traced eng) a) of
        Inl e \<Rightarrow> None
      | Inr self \<Rightarrow> registered_window (fst (np self)) n)"

section \<open>The specification's wording of the holiday window\<close>

text \<open>
  For comparison with the code, the window as the specification words it: the windows
  of the occurrences of one name, and of those the smallest lower and the largest upper
  bound.
\<close>

definition holiday_windows :: "frame \<Rightarrow> string \<Rightarrow> (int \<times> int) list" where
  "holiday_windows hs n =
     (case (map_of hs ''holiday'', map_of hs ''lower_window'', map_of hs ''upper_window'') of
        (Some (StrS names), Some (IntS lowers), Some (IntS uppers)) \<Rightarrow>
          map snd (filter (\<lambda>r. fst r = n) (zip names (zip lowers uppers)))
      | _ \<Rightarrow> [])"

definition spec_effective_window :: "frame \<Rightarrow> string \<Rightarrow> (int \<times> int) option" where
  "spec_effective_window hs n =
     (case holiday_windows hs n of
        [] \<Rightarrow> None
      | w # ws \<Rightarrow> Some (fold min (map fst ws) (fst w), fold max (map snd ws) (snd w)))"

section \<open>The specification's wording of the renamed view\<close>

text \<open>
  For comparison with the code, the renamed view as the specification words it: the
  event columns of a table are those whose label carries the prefix \<^verbatim>\<open>event_\<close>, and
  the view holds each of them under its label with the prefix stripped.
\<close>

definition spec_renamed_view :: "frame \<Rightarrow> frame" where
  "spec_renamed_view df =
     map (\<lambda>p. (drop (length ''event_'') (fst p), snd p))
       (filter (\<lambda>p. take (length ''event_'') (fst p) = ''event_'') df)"

text \<open>
  A table in which \<^verbatim>\<open>event_\<close> occurs in a label only as its prefix and only once,
  each such label stands for one column, and the name behind the prefix is not itself
  a label of the table.
\<close>

definition event_columns_plain :: "frame \<Rightarrow> bool" where
  "event_columns_plain df =
     list_all (\<lambda>c. if str_contains ''event_'' c
                   then take (length ''event_'') c = ''event_''
                        \<and> \<not> str_contains ''event_'' (drop (length ''event_'') c)
                        \<and> length (lookup_all df c) = 1
                        \<and> drop (length ''event_'') c \<notin> set (columns df)
                   else True)
       (columns df)"

section \<open>Concrete tables and objects\<close>

definition two_holidays :: frame where
  "two_holidays =
     [(''holiday'', StrS [''Diwali'', ''Christmas'']),
      (''ds'', DateS [19308, 19351]),
      (''lower_window'', IntS [0, 0]),
      (''upper_window'', IntS [0, 3])]"

definition diwali_twice :: frame where
  "diwali_twice =
     [(''holiday'', StrS [''Diwali'', ''Diwali'']),
      (''ds'', DateS [19308, 19673]),
      (''lower_window'', IntS [- 1, - 2]),
      (''upper_window'', IntS [1, 0])]"

definition new_year_undated :: frame where
  "new_year_undated =
     [(''holiday'', StrS [''NewYear'']),
      (''lower_window'', IntS [- 1]),
      (''upper_window'', IntS [0])]"

definition new_year_unwindowed :: frame where
  "new_year_unwindowed = [(''holiday'', StrS [''NewYear'']), (''ds'', DateS [19358])]"

definition unnamed_holidays :: frame where
  "unnamed_holidays =
     [(''ds'', DateS [19358]), (''lower_window'', IntS [- 1]), (''upper_window'', IntS [0])]"

definition example_history :: frame where
  "example_history = [(''ds'', DateS [19358, 19359, 19360]), (''y'', FloatS [1, 2, 3])]"

definition capped_history :: frame where
  "capped_history =
     [(''ds'', DateS [19358, 19359, 19360]), (''y'', FloatS [1, 2, 3]), (''cap'', FloatS [9, 9, 9])]"

definition unfitted :: "unit prophet" where
  "unfitted =
     \<lparr> np = (), events_df = None, name = ''Prophet'', history = None,
       train_holiday_names = PNone \<rparr>"

definition fitted :: "unit prophet" where
  "fitted = unfitted\<lparr>history := Some example_history\<rparr>"

definition fitted_traced :: "(np_call list \<times> unit) prophet" where
  "fitted_traced =
     \<lparr> np = ([], ()), events_df = None, name = ''Prophet'', history = Some example_history,
       train_holiday_names = PNone \<rparr>"

definition example_forecast :: frame where
  "example_forecast =
     [(''ds'', DateS [19361]), (''trend'', FloatS [10]), (''event_Diwali'', FloatS [1 / 2])]"

definition empty_history :: frame where
  "empty_history = [(''ds'', DateS []), (''y'', FloatS [])]"

definition emptied_traced :: "(np_call list \<times> unit) prophet" where
  "emptied_traced =
     \<lparr> np = ([], ()), events_df = None, name = ''Prophet'', history = Some empty_history,
       train_holiday_names = PNone \<rparr>"

section \<open>Basic facts\<close>

lemma list_max_eq_Max: "xs \<noteq> [] \<Longrightarrow> list_max xs = Some (Max (set xs))"
  by (cases xs) (simp_all add: Max.set_eq_fold [symmetric] del: set_simps)

lemma set_unique [simp]: "set (unique xs) = set xs"
  by (induction xs rule: unique.induct) auto

lemma py_repeated_fresh:
  assumes "set (map fst extra) \<inter> set explicit = {}"
  shows "py_repeated explicit extra = Inr ()"
proof -
  have "filter (\<lambda>k. k \<in> set explicit) (map fst extra) = []"
    using assms by (auto simp: filter_empty_conv)
  then show ?thesis by (simp add: py_repeated_def)
qed

lemma lookup_all_empty: "lookup_all df c = [] \<longleftrightarrow> c \<notin> set (columns df)"
  by (auto simp: lookup_all_def columns_def filter_empty_conv)

lemma getitem_absent: "c \<notin> set (columns df) \<Longrightarrow> getitem df c = Inl (KeyError c)"
  by (simp add: getitem_def lookup_all_empty [THEN iffD2])

lemma getitem_present: "c \<in> set (columns df) \<Longrightarrow> \<exists>v. getitem df c = Inr v"
proof -
  assume "c \<in> set (columns df)"
  then have "lookup_all df c \<noteq> []" by (simp add: lookup_all_empty)
  then show ?thesis by (auto simp: getitem_def split: list.splits)
qed

lemma getitem_once: "lookup_all df c = [s] \<Longrightarrow> getitem df c = Inr (Column s)"
  by (simp add: getitem_def)

lemma lookup_all_drop_columns:
  "lookup_all (drop_columns cs df) c = (if c \<in> set cs then [] else lookup_all df c)"
  by (induction df) (auto simp: drop_columns_def lookup_all_def)

lemma getitem_drop_columns:
  "c \<notin> set cs \<Longrightarrow> getitem (drop_columns cs df) c = getitem df c"
  by (simp add: getitem_def lookup_all_drop_columns)

lemma traced_simps [simp]:
  "np_init (traced eng) kw =
     (case np_init eng kw of Inl e \<Rightarrow> Inl e | Inr s \<Rightarrow> Inr ([NP_init kw], s))"
  "np_add_events (traced eng) st ev l u =
     (case np_add_events eng (snd st) ev l u of
        Inl e \<Rightarrow> Inl e
      | Inr s \<Rightarrow> Inr (fst st @ [NP_add_events ev l u], s))"
  "np_make_future_dataframe (traced eng) st hist evf p n kw =
     record_call (fst st) (NP_make_future_dataframe hist evf p n kw)
       (np_make_future_dataframe eng (snd st) hist evf p n kw)"
  "np_predict (traced eng) st df kw =
     record_call (fst st) (NP_predict df kw) (np_predict eng (snd st) df kw)"
  "np_fit (traced eng) st df kw =
     record_call (fst st) (NP_fit df kw) (np_fit eng (snd st) df kw)"
  "np_create_df_with_events (traced eng) st df evd =
     record_call (fst st) (NP_create_df_with_events df evd)
       (np_create_df_with_events eng (snd st) df evd)"
  by (simp_all add: traced_def)

lemma stand_in_extends: "extends_as_specified stand_in_engine"
  by (simp add: extends_as_specified_def stand_in_engine_def)

subsection \<open>Construction\<close>

text \<open>The calls that a successful construction has made on the engine.\<close>

lemma init_trace:
  assumes "snd (Prophet_init (traced eng) a) = Inr self"
  shows "fst (np self) = NP_init (super_init_keywords a @ kwargs a) # holiday_calls (holidays a)"
  using assms
  by (auto simp: Prophet_init_def handle_holidays_def holiday_calls_def py_keywords_def py_repeated_def
       split: sum.splits option.splits list.splits prod.splits)

text \<open>A construction with the defaults and a holidays table, on the stand-in engine.\<close>

lemma init_stand_in_traced:
  "snd (Prophet_init (traced stand_in_engine) (default_args\<lparr>holidays := Some hs\<rparr>)) =
     (case holiday_events hs of
        Inl e \<Rightarrow> Inl e
      | Inr (ev, l, u) \<Rightarrow>
          Inr \<lparr> np = ([NP_init (super_init_keywords default_args), NP_add_events ev l u], ()),
                events_df = Some (holidays_events_df hs), name = ''Prophet'', history = None,
                train_holiday_names = PNone \<rparr>)"
  by (simp add: Prophet_init_def default_args_def super_init_keywords_def
      py_keywords_def py_repeated_def stand_in_engine_def handle_holidays_def split: sum.splits prod.splits)

lemma unfitted_is_constructed: "snd (Prophet_init stand_in_engine default_args) = Inr unfitted"
  by (simp add: Prophet_init_def default_args_def super_init_keywords_def
      py_keywords_def py_repeated_def stand_in_engine_def handle_holidays_def unfitted_def)

lemma fitted_is_fit: "fit stand_in_engine unfitted example_history [] = (fitted, Inr [])"
  by (simp add: fit_def unfitted_def fitted_def example_history_def columns_def stand_in_engine_def)

lemma holiday_events_ignores_ds:
  "holiday_events (drop_columns [''ds''] hs) = holiday_events hs"
  by (simp add: holiday_events_def getitem_drop_columns cong: sum.case_cong)

lemma init_ignores_ds:
  "isl (snd (Prophet_init eng (a\<lparr>holidays := Some (drop_columns [''ds''] hs)\<rparr>)))
     = isl (snd (Prophet_init eng (a\<lparr>holidays := Some hs\<rparr>)))"
  by (simp add: Prophet_init_def handle_holidays_def holiday_events_ignores_ds
        super_init_keywords_def split: sum.splits prod.splits)

lemma init_missing_name:
  assumes "holidays a = Some hs" "''holiday'' \<notin> set (columns hs)"
  shows "snd (Prophet_init eng a) =
           (case py_keywords (super_init_keywords a) (kwargs a) of
              Inl e \<Rightarrow> Inl e
            | Inr kw \<Rightarrow> (case np_init eng kw of Inl e \<Rightarrow> Inl e | Inr s \<Rightarrow> Inl (KeyError ''holiday'')))"
  using assms
  by (simp add: Prophet_init_def handle_holidays_def holiday_events_def getitem_absent
      split: sum.splits prod.splits)

text \<open>
  The docstring of the class calls the columns \<^verbatim>\<open>lower_window\<close> and \<^verbatim>\<open>upper_window\<close>
  optional, and line 107 drops them only if they are there; lines 102 and 103 read
  them all the same, so a table without them ends the construction.
\<close>

lemma absent_windows_raise:
  assumes "holidays a = Some hs" "getitem hs ''holiday'' = Inr (Column names)"
    and "''lower_window'' \<notin> set (columns hs)"
    and "py_keywords (super_init_keywords a) (kwargs a) = Inr kw" "np_init eng kw = Inr s"
  shows "snd (Prophet_init eng a) = Inl (KeyError ''lower_window'')"
  using assms
  by (simp add: Prophet_init_def handle_holidays_def holiday_events_def getitem_absent
        selection_unique_def)

text \<open>A table in which the label \<^verbatim>\<open>holiday\<close> repeats ends the construction at line 101.\<close>

lemma repeated_name_column_raises:
  assumes "holidays a = Some hs" "getitem hs ''holiday'' = Inr (Columns ss)"
    and "py_keywords (super_init_keywords a) (kwargs a) = Inr kw" "np_init eng kw = Inr s"
  shows "snd (Prophet_init eng a) = Inl (AttributeError ''unique'')"
  using assms
  by (simp add: Prophet_init_def handle_holidays_def holiday_events_def selection_unique_def)

lemma new_year_unwindowed_raises:
  "snd (Prophet_init stand_in_engine (default_args\<lparr>holidays := Some new_year_unwindowed\<rparr>))
     = Inl (KeyError ''lower_window'')"
  by (simp add: Prophet_init_def default_args_def super_init_keywords_def py_keywords_def py_repeated_def
      stand_in_engine_def handle_holidays_def holiday_events_def getitem_def lookup_all_def selection_unique_def selection_max_def
      new_year_unwindowed_def)

text \<open>
  Line 102 takes the maximum of \<^verbatim>\<open>lower_window\<close>, whose entries are not positive: of
  two occurrences with the windows from -1 to 1 and from -2 to 0 the registered window
  runs from -1 to 1, and the day two days before the second occurrence is lost.
\<close>

lemma diwali_twice_window:
  "init_window stand_in_engine (default_args\<lparr>holidays := Some diwali_twice\<rparr>) (PStr ''Diwali'')
     = Some (PInt (- 1), PInt 1)
   \<and> spec_effective_window diwali_twice ''Diwali'' = Some (- 2, 1)"
  by (simp add: init_window_def init_stand_in_traced holiday_events_def getitem_def lookup_all_def selection_unique_def selection_max_def
       diwali_twice_def series_values_def series_max_def spec_effective_window_def
       holiday_windows_def)

subsection \<open>The future frame\<close>

lemma make_future_dataframe_calls:
  assumes "set (map fst kw) \<inter> {''df'', ''events_df'', ''periods'', ''n_historic_predictions''} = {}"
  shows "fst (np (fst (make_future_dataframe (traced eng) self periods freq include_history kw)))
           = fst (np self) @ [NP_make_future_dataframe (history self) (events_df self)
                 (if freq = ''M'' then periods * 30 else periods) include_history kw]"
    and "snd (make_future_dataframe eng self' periods freq include_history kw)
           = snd (np_make_future_dataframe eng (np self') (history self') (events_df self')
                 (if freq = ''M'' then periods * 30 else periods) include_history kw)"
proof -
  have k1: "py_repeated [''df'', ''events_df'', ''periods'', ''n_historic_predictions''] kw = Inr ()"
    using assms by (intro py_repeated_fresh) auto
  have k2: "py_repeated [''df'', ''periods'', ''n_historic_predictions''] kw = Inr ()"
    using assms by (intro py_repeated_fresh) auto
  show "fst (np (fst (make_future_dataframe (traced eng) self periods freq include_history kw)))
           = fst (np self) @ [NP_make_future_dataframe (history self) (events_df self)
                 (if freq = ''M'' then periods * 30 else periods) include_history kw]"
    by (simp add: make_future_dataframe_def k1 k2 record_call_def Let_def
          split: option.splits prod.splits)
  show "snd (make_future_dataframe eng self' periods freq include_history kw)
           = snd (np_make_future_dataframe eng (np self') (history self') (events_df self')
                 (if freq = ''M'' then periods * 30 else periods) include_history kw)"
    by (simp add: make_future_dataframe_def k1 k2 Let_def split: option.splits prod.splits)
qed

lemma make_future_dataframe_freq:
  "freq \<noteq> ''M'' \<Longrightarrow>
     make_future_dataframe eng self periods freq include_history kw
       = make_future_dataframe eng self periods ''D'' include_history kw"
  by (simp add: make_future_dataframe_def)

lemma make_future_dataframe_month:
  "make_future_dataframe eng self periods ''M'' include_history kw
     = make_future_dataframe eng self (periods * 30) ''D'' include_history kw"
  by (simp add: make_future_dataframe_def)

text \<open>On an engine that extends as specified, one month gives thirty rows per period.\<close>

lemma month_rows:
  assumes "0 < periods" "frame_dates (history self) \<noteq> []" "extends_as_specified eng"
  shows "\<exists>ds. snd (make_future_dataframe eng self periods ''M'' False []) = Inr [(''ds'', DateS ds)]
           \<and> length ds = nat (30 * periods)"
  using assms
  by (simp add: make_future_dataframe_calls(2) extends_as_specified_def
        spec_make_future_dataframe_def spec_extend_def)

subsection \<open>The loop of prediction\<close>

lemma lookup_all_append: "lookup_all (a @ b) c = lookup_all a c @ lookup_all b c"
  by (simp add: lookup_all_def)

lemma lookup_all_count: "length (lookup_all df c) = count_list (columns df) c"
  by (induction df) (auto simp: lookup_all_def columns_def)

lemma lookup_all_member: "p \<in> set df \<Longrightarrow> snd p \<in> set (lookup_all df (fst p))"
  by (auto simp: lookup_all_def)

lemma lookup_all_once:
  assumes "p \<in> set df" "length (lookup_all df (fst p)) = 1"
  shows "lookup_all df (fst p) = [snd p]"
proof -
  from assms(2) obtain s where s: "lookup_all df (fst p) = [s]"
    by (cases "lookup_all df (fst p)") auto
  with lookup_all_member [OF assms(1)] show ?thesis by simp
qed

lemma setitem_column_fresh:
  "c \<notin> set (columns df) \<Longrightarrow> setitem df c (Column s) = Inr (df @ [(c, s)])"
  by (simp add: setitem_def)

lemma distinct_filter_once:
  "\<forall>x \<in> set xs. P x \<longrightarrow> count_list xs x = 1 \<Longrightarrow> distinct (filter P xs)"
proof (induction xs)
  case Nil
  then show ?case by simp
next
  case (Cons x xs)
  have rest: "\<forall>y \<in> set xs. P y \<longrightarrow> count_list xs y = 1"
  proof (intro ballI impI)
    fix y assume y: "y \<in> set xs" "P y"
    with Cons.prems have c: "count_list (x # xs) y = 1" by simp
    from y(1) have "count_list xs y \<noteq> 0" by (simp add: count_list_0_iff)
    with c show "count_list xs y = 1" by (cases "x = y") auto
  qed
  show ?case
  proof (cases "P x")
    case False
    with Cons.IH [OF rest] show ?thesis by simp
  next
    case True
    with Cons.prems have "count_list (x # xs) x = 1" by simp
    then have "x \<notin> set xs" by (simp add: count_list_0_iff)
    with Cons.IH [OF rest] True show ?thesis by simp
  qed
qed

lemma str_replace_absent: "\<not> str_contains old s \<Longrightarrow> str_replace old new s = s"
  by (induction s) auto

lemma strip_event_prefix:
  "\<not> str_contains ''event_'' n \<Longrightarrow> str_replace ''event_'' [] (''event_'' @ n) = n"
  by (simp add: str_replace_absent)

lemma event_prefix_contains: "take (length ''event_'') c = ''event_'' \<Longrightarrow> str_contains ''event_'' c"
  by (cases c) auto

lemma strip_plain_label:
  assumes "take (length ''event_'') c = ''event_''"
      and "\<not> str_contains ''event_'' (drop (length ''event_'') c)"
  shows "str_replace ''event_'' [] c = drop (length ''event_'') c"
proof -
  have "c = ''event_'' @ drop (length ''event_'') c"
    using assms(1) append_take_drop_id [of "length ''event_''" c] by simp
  then have "str_replace ''event_'' [] c
               = str_replace ''event_'' [] (''event_'' @ drop (length ''event_'') c)"
    by simp
  also have "\<dots> = drop (length ''event_'') c"
    using assms(2) by (rule strip_event_prefix)
  finally show ?thesis .
qed

text \<open>
  The loop on a table \<open>base\<close> to which the columns \<open>acc\<close> have been added already: where
  every label to copy stands for one column of \<open>base\<close> and the stripped labels are new and
  pairwise different, each round adds one column.
\<close>

lemma copy_event_columns_appends:
  assumes "\<forall>c \<in> set cs. str_contains ''event_'' c \<longrightarrow>
             length (lookup_all base c) = 1
             \<and> str_replace ''event_'' [] c \<notin> set (columns base) \<union> set (columns acc)
             \<and> c \<notin> set (columns acc)"
      and "distinct (map (str_replace ''event_'' []) (filter (str_contains ''event_'') cs))"
  shows "copy_event_columns cs (base @ acc) =
           Inr (base @ acc @ map (\<lambda>c. (str_replace ''event_'' [] c, hd (lookup_all base c)))
                                 (filter (str_contains ''event_'') cs))"
  using assms
proof (induction cs arbitrary: acc)
  case Nil
  then show ?case by simp
next
  case (Cons c cs)
  show ?case
  proof (cases "str_contains ''event_'' c")
    case False
    with Cons.prems have "\<forall>c \<in> set cs. str_contains ''event_'' c \<longrightarrow>
             length (lookup_all base c) = 1
             \<and> str_replace ''event_'' [] c \<notin> set (columns base) \<union> set (columns acc)
             \<and> c \<notin> set (columns acc)"
      and "distinct (map (str_replace ''event_'' []) (filter (str_contains ''event_'') cs))"
      by auto
    from Cons.IH [OF this] False show ?thesis by simp
  next
    case True
    let ?k = "str_replace ''event_'' [] c"
    from True Cons.prems have once: "length (lookup_all base c) = 1"
      and k: "?k \<notin> set (columns base)" "?k \<notin> set (columns acc)"
      and c: "c \<notin> set (columns acc)" by auto
    from once obtain s where s: "lookup_all base c = [s]"
      by (cases "lookup_all base c") auto
    from c have "lookup_all acc c = []" by (simp add: lookup_all_empty)
    with s have get: "getitem (base @ acc) c = Inr (Column s)"
      by (simp add: getitem_def lookup_all_append)
    have set: "setitem (base @ acc) ?k (Column s) = Inr (base @ (acc @ [(?k, s)]))"
      using k setitem_column_fresh [of ?k "base @ acc" s] by (simp add: columns_def)
    have p1: "\<forall>c' \<in> set cs. str_contains ''event_'' c' \<longrightarrow>
             length (lookup_all base c') = 1
             \<and> str_replace ''event_'' [] c' \<notin> set (columns base) \<union> set (columns (acc @ [(?k, s)]))
             \<and> c' \<notin> set (columns (acc @ [(?k, s)]))"
    proof (intro ballI impI)
      fix c' assume c': "c' \<in> set cs" "str_contains ''event_'' c'"
      then have "str_replace ''event_'' [] c'
                   \<in> str_replace ''event_'' [] ` {x \<in> set cs. str_contains ''event_'' x}"
        by blast
      moreover from Cons.prems(2) True
      have "?k \<notin> str_replace ''event_'' [] ` {x \<in> set cs. str_contains ''event_'' x}"
        by simp
      ultimately have ne: "str_replace ''event_'' [] c' \<noteq> ?k" by metis
      from c' Cons.prems(1) have l: "length (lookup_all base c') = 1"
        and f: "str_replace ''event_'' [] c' \<notin> set (columns base) \<union> set (columns acc)"
        and a: "c' \<notin> set (columns acc)" by auto
      from l have "lookup_all base c' \<noteq> []" by auto
      then have "c' \<in> set (columns base)" by (simp add: lookup_all_empty)
      with k(1) have "c' \<noteq> ?k" by auto
      with ne l f a show "length (lookup_all base c') = 1
             \<and> str_replace ''event_'' [] c' \<notin> set (columns base) \<union> set (columns (acc @ [(?k, s)]))
             \<and> c' \<notin> set (columns (acc @ [(?k, s)]))"
        by (auto simp: columns_def)
    qed
    have p2: "distinct (map (str_replace ''event_'' []) (filter (str_contains ''event_'') cs))"
      using Cons.prems True by simp
    from Cons.IH [OF p1 p2] True s get set show ?thesis
      by simp
  qed
qed

text \<open>What \<open>event_columns_plain\<close> says of each label of the table.\<close>

lemma event_columns_plainD:
  assumes "event_columns_plain df" "c \<in> set (columns df)" "str_contains ''event_'' c"
  shows "take (length ''event_'') c = ''event_''"
    and "\<not> str_contains ''event_'' (drop (length ''event_'') c)"
    and "length (lookup_all df c) = 1"
    and "drop (length ''event_'') c \<notin> set (columns df)"
    and "str_replace ''event_'' [] c = drop (length ''event_'') c"
proof -
  from assms have all: "take (length ''event_'') c = ''event_''
                        \<and> \<not> str_contains ''event_'' (drop (length ''event_'') c)
                        \<and> length (lookup_all df c) = 1
                        \<and> drop (length ''event_'') c \<notin> set (columns df)"
    unfolding event_columns_plain_def list_all_iff by (auto split: if_splits)
  then show "take (length ''event_'') c = ''event_''"
    and "\<not> str_contains ''event_'' (drop (length ''event_'') c)"
    and "length (lookup_all df c) = 1"
    and "drop (length ''event_'') c \<notin> set (columns df)"
    by blast+
  from all show "str_replace ''event_'' [] c = drop (length ''event_'') c"
    by (intro strip_plain_label) blast+
qed

lemma plain_copies_are_view:
  assumes "event_columns_plain df"
  shows "map (\<lambda>c. (str_replace ''event_'' [] c, hd (lookup_all df c)))
           (filter (str_contains ''event_'') (columns df)) = spec_renamed_view df"
proof -
  have 1: "filter (str_contains ''event_'') (map fst df)
             = map fst (filter (\<lambda>p. str_contains ''event_'' (fst p)) df)"
    by (simp add: filter_map comp_def)
  have 2: "map (\<lambda>p. (str_replace ''event_'' [] (fst p), hd (lookup_all df (fst p))))
             (filter (\<lambda>p. str_contains ''event_'' (fst p)) df)
         = map (\<lambda>p. (drop (length ''event_'') (fst p), snd p))
             (filter (\<lambda>p. str_contains ''event_'' (fst p)) df)"
  proof (intro map_cong refl)
    fix p assume "p \<in> set (filter (\<lambda>p. str_contains ''event_'' (fst p)) df)"
    then have p: "p \<in> set df" "str_contains ''event_'' (fst p)" by auto
    then have c: "fst p \<in> set (columns df)" by (auto simp: columns_def)
    from lookup_all_once [OF p(1) event_columns_plainD(3) [OF assms c p(2)]]
         event_columns_plainD(5) [OF assms c p(2)]
    show "(str_replace ''event_'' [] (fst p), hd (lookup_all df (fst p)))
            = (drop (length ''event_'') (fst p), snd p)"
      by simp
  qed
  have 3: "filter (\<lambda>p. str_contains ''event_'' (fst p)) df
             = filter (\<lambda>p. take (length ''event_'') (fst p) = ''event_'') df"
  proof (intro filter_cong refl)
    fix p assume p: "p \<in> set df"
    then have c: "fst p \<in> set (columns df)" by (auto simp: columns_def)
    show "str_contains ''event_'' (fst p) = (take (length ''event_'') (fst p) = ''event_'')"
      using event_columns_plainD(1) [OF assms c] event_prefix_contains [of "fst p"] by blast
  qed
  have "map (\<lambda>c. (str_replace ''event_'' [] c, hd (lookup_all df c)))
          (filter (str_contains ''event_'') (columns df))
        = map (\<lambda>c. (str_replace ''event_'' [] c, hd (lookup_all df c)))
            (map fst (filter (\<lambda>p. str_contains ''event_'' (fst p)) df))"
    by (simp only: columns_def 1)
  also have "\<dots> = map (\<lambda>p. (str_replace ''event_'' [] (fst p), hd (lookup_all df (fst p))))
                       (filter (\<lambda>p. str_contains ''event_'' (fst p)) df)"
    by (simp only: map_map comp_def)
  also have "\<dots> = map (\<lambda>p. (drop (length ''event_'') (fst p), snd p))
                       (filter (\<lambda>p. str_contains ''event_'' (fst p)) df)"
    by (rule 2)
  also have "\<dots> = spec_renamed_view df"
    by (simp only: 3 spec_renamed_view_def)
  finally show ?thesis .
qed

lemma copy_event_columns_plain:
  assumes "event_columns_plain df"
  shows "copy_event_columns (columns df) df = Inr (df @ spec_renamed_view df)"
proof -
  let ?ev = "filter (str_contains ''event_'') (columns df)"
  have a: "\<forall>c \<in> set (columns df). str_contains ''event_'' c \<longrightarrow>
             length (lookup_all df c) = 1
             \<and> str_replace ''event_'' [] c \<notin> set (columns df) \<union> set (columns [])
             \<and> c \<notin> set (columns [])"
    using event_columns_plainD [OF assms] by (auto simp: columns_def)
  have "\<forall>c \<in> set (columns df). str_contains ''event_'' c \<longrightarrow> count_list (columns df) c = 1"
    using event_columns_plainD(3) [OF assms] by (simp add: lookup_all_count)
  then have d: "distinct ?ev" by (rule distinct_filter_once)
  have inj: "inj_on (str_replace ''event_'' []) (set ?ev)"
  proof (rule inj_onI)
    fix x y assume x: "x \<in> set ?ev" and y: "y \<in> set ?ev"
      and eq: "str_replace ''event_'' [] x = str_replace ''event_'' [] y"
    from x y have mx: "x \<in> set (columns df)" "str_contains ''event_'' x"
      and my: "y \<in> set (columns df)" "str_contains ''event_'' y" by auto
    from eq event_columns_plainD(5) [OF assms mx] event_columns_plainD(5) [OF assms my]
    have "drop (length ''event_'') x = drop (length ''event_'') y" by simp
    moreover have "take (length ''event_'') x = take (length ''event_'') y"
      using event_columns_plainD(1) [OF assms mx] event_columns_plainD(1) [OF assms my] by simp
    ultimately show "x = y"
      by (metis append_take_drop_id)
  qed
  from d inj have b: "distinct (map (str_replace ''event_'' []) ?ev)"
    by (simp add: distinct_map)
  have "copy_event_columns (columns df) (df @ []) =
          Inr (df @ [] @ map (\<lambda>c. (str_replace ''event_'' [] c, hd (lookup_all df c))) ?ev)"
    using a b by (rule copy_event_columns_appends)
  then show ?thesis by (simp add: plain_copies_are_view [OF assms])
qed

lemma predict_input:
  assumes "df = Some d \<or> (df = None \<and> history self = Some d)"
    and "np_predict eng (np self) d kw = (s1, Inr tbl)"
  shows "predict eng self df kw = (self\<lparr>np := s1\<rparr>, copy_event_columns (columns tbl) tbl)"
  using assms by (auto simp: predict_def)

lemma example_forecast_plain: "event_columns_plain example_forecast"
  by (simp add: event_columns_plain_def columns_def lookup_all_def example_forecast_def)

text \<open>
  On a table in which the label of an event column repeats, \<^verbatim>\<open>df[column]\<close> is a
  DataFrame, and its assignment to the new label (line 219) raises \<^verbatim>\<open>ValueError\<close>.
\<close>

lemma repeated_event_label_raises:
  "snd (predict stand_in_engine fitted
          (Some [(''ds'', DateS [19361]), (''event_a'', FloatS [1]), (''event_a'', FloatS [2])]) [])
     = Inl (ValueError ''a'')"
  by (simp add: predict_def stand_in_engine_def columns_def getitem_def lookup_all_def setitem_def)


section \<open>The claims\<close>

subsection \<open>C3: a capacity column is refused before anything else happens\<close>

text \<open>
  Claim C3. For every frame given to \<^verbatim>\<open>fit\<close> that has a column labelled \<^verbatim>\<open>cap\<close>,
  \<^verbatim>\<open>fit\<close> raises the exception for an unsupported feature (\<^verbatim>\<open>NotImplementedError\<close>), and
  it does so before it fits or changes anything: whatever the engine is, the object is
  returned as it was, so no method of the engine has run.
\<close>

theorem fit_rejects_cap:
  assumes "''cap'' \<in> set (columns df)"
  shows "fit eng self df kw =
    (self, Inl (NotImplementedError
       ''Saturating forecasts using cap is not supported in NeuralProphet.''))"
  using assms by (simp add: fit_def)

theorem fit_rejects_cap_witness:
  "fit (traced stand_in_engine) fitted_traced capped_history [(''show_progress'', PBool False)] =
    (fitted_traced, Inl (NotImplementedError
       ''Saturating forecasts using cap is not supported in NeuralProphet.''))"
proof -
  have "''cap'' \<in> set (columns capped_history)"
    by (simp add: capped_history_def columns_def)
  then show ?thesis by (rule fit_rejects_cap)
qed

subsection \<open>C2: a month is thirty periods\<close>

text \<open>
  Claim C2. \<^verbatim>\<open>make_future_dataframe\<close> with the frequency \<^verbatim>\<open>"M"\<close> hands the engine thirty
  times the requested number of periods, whatever the dates of the history are; with
  every other frequency it hands the number on unchanged. The engine is called once,
  with the stored history and events table, and its result is the method's result.
  (Keywords that repeat an explicit keyword of the call end it with \<^verbatim>\<open>TypeError\<close>
  before the engine is reached.)
\<close>

theorem month_is_thirty_periods:
  assumes "set (map fst kw) \<inter> {''df'', ''events_df'', ''periods'', ''n_historic_predictions''} = {}"
  shows "fst (np (fst (make_future_dataframe (traced eng) self periods freq include_history kw)))
           = fst (np self) @ [NP_make_future_dataframe (history self) (events_df self)
                 (if freq = ''M'' then periods * 30 else periods) include_history kw]
       \<and> snd (make_future_dataframe eng self' periods freq include_history kw)
           = snd (np_make_future_dataframe eng (np self') (history self') (events_df self')
                 (if freq = ''M'' then periods * 30 else periods) include_history kw)"
  using make_future_dataframe_calls [OF assms] by blast

theorem month_is_thirty_periods_witness:
  "fst (np (fst (make_future_dataframe (traced stand_in_engine) fitted_traced 2 ''M'' False [])))
     = [NP_make_future_dataframe (Some example_history) None 60 False []]
   \<and> (\<exists>ds. snd (make_future_dataframe stand_in_engine fitted 1 ''M'' False []) = Inr [(''ds'', DateS ds)]
          \<and> length ds = 30)"
proof -
  have k: "set (map fst ([] :: kwargs))
             \<inter> {''df'', ''events_df'', ''periods'', ''n_historic_predictions''} = {}"
    by simp
  from month_is_thirty_periods [OF k, of stand_in_engine fitted_traced 2 "''M''" False fitted]
  have "fst (np (fst (make_future_dataframe (traced stand_in_engine) fitted_traced 2 ''M'' False [])))
     = [NP_make_future_dataframe (Some example_history) None 60 False []]"
    by (simp add: fitted_traced_def)
  moreover
  from month_is_thirty_periods [OF k, of stand_in_engine fitted_traced 1 "''M''" False fitted]
  have "snd (make_future_dataframe stand_in_engine fitted 1 ''M'' False [])
          = Inr [(''ds'', DateS (map (\<lambda>k. 19360 + k) [1..30]))]"
    by (simp add: fitted_def unfitted_def stand_in_engine_def spec_make_future_dataframe_def
          spec_extend_def frame_dates_def example_history_def)
  ultimately show ?thesis by simp
qed

subsection \<open>C9: the configuration that the constructor forwards\<close>

text \<open>
  Claim C9. Whenever the adapter is constructed, the first call on the engine is its
  constructor, with the keywords \<^verbatim>\<open>growth\<close>, \<^verbatim>\<open>changepoints\<close>, \<^verbatim>\<open>n_changepoints\<close>,
  \<^verbatim>\<open>yearly_seasonality\<close>, \<^verbatim>\<open>weekly_seasonality\<close>, \<^verbatim>\<open>daily_seasonality\<close> and
  \<^verbatim>\<open>seasonality_mode\<close> holding the values given under the same names, with
  \<^verbatim>\<open>changepoints_range\<close> holding the value given as \<^verbatim>\<open>changepoint_range\<close> and
  \<^verbatim>\<open>prediction_interval\<close> the value given as \<^verbatim>\<open>interval_width\<close>, followed by the extra
  keywords. There is no keyword for the holidays table: the only further call is the
  \<^verbatim>\<open>add_events\<close> call that passes the names of the table and two window bounds, and
  what the object keeps for the engine's later use is not the table but its copy with
  the name column relabelled and the window columns dropped.
\<close>

theorem init_forwards_configuration:
  assumes "snd (Prophet_init (traced eng) a) = Inr self"
  shows "fst (np self) = NP_init (super_init_keywords a @ kwargs a) # holiday_calls (holidays a)
       \<and> map fst (super_init_keywords a) =
            [''growth'', ''changepoints'', ''n_changepoints'', ''changepoints_range'',
             ''yearly_seasonality'', ''weekly_seasonality'', ''daily_seasonality'',
             ''seasonality_mode'', ''prediction_interval'']
       \<and> map_of (super_init_keywords a @ kwargs a) ''growth'' = Some (growth a)
       \<and> map_of (super_init_keywords a @ kwargs a) ''changepoints'' = Some (changepoints a)
       \<and> map_of (super_init_keywords a @ kwargs a) ''n_changepoints'' = Some (n_changepoints a)
       \<and> map_of (super_init_keywords a @ kwargs a) ''yearly_seasonality'' = Some (yearly_seasonality a)
       \<and> map_of (super_init_keywords a @ kwargs a) ''weekly_seasonality'' = Some (weekly_seasonality a)
       \<and> map_of (super_init_keywords a @ kwargs a) ''daily_seasonality'' = Some (daily_seasonality a)
       \<and> map_of (super_init_keywords a @ kwargs a) ''seasonality_mode'' = Some (seasonality_mode a)
       \<and> map_of (super_init_keywords a @ kwargs a) ''changepoints_range'' = Some (changepoint_range a)
       \<and> map_of (super_init_keywords a @ kwargs a) ''prediction_interval'' = Some (interval_width a)
       \<and> (\<forall>c \<in> set (holiday_calls (holidays a)). \<exists>ev l u. c = NP_add_events ev l u)
       \<and> events_df self = map_option holidays_events_df (holidays a)"
proof -
  have "fst (np self) = NP_init (super_init_keywords a @ kwargs a) # holiday_calls (holidays a)"
    using assms by (rule init_trace)
  moreover have "events_df self = map_option holidays_events_df (holidays a)"
    using assms
    by (auto simp: Prophet_init_def handle_holidays_def
          split: sum.splits option.splits prod.splits)
  moreover have "\<forall>c \<in> set (holiday_calls (holidays a)). \<exists>ev l u. c = NP_add_events ev l u"
    by (auto simp: holiday_calls_def split: option.splits sum.splits)
  ultimately show ?thesis
    by (simp add: super_init_keywords_def)
qed

theorem init_forwards_configuration_witness:
  "\<exists>self. snd (Prophet_init (traced stand_in_engine)
              (default_args\<lparr>holidays := Some two_holidays\<rparr>)) = Inr self
     \<and> fst (np self) =
         [NP_init [(''growth'', PStr ''linear''), (''changepoints'', PNone),
                   (''n_changepoints'', PInt 25), (''changepoints_range'', PFloat (4 / 5)),
                   (''yearly_seasonality'', PStr ''auto''), (''weekly_seasonality'', PStr ''auto''),
                   (''daily_seasonality'', PStr ''auto''), (''seasonality_mode'', PStr ''additive''),
                   (''prediction_interval'', PFloat (4 / 5))],
          NP_add_events [PStr ''Diwali'', PStr ''Christmas''] (PInt 0) (PInt 3)]"
proof -
  have he: "holiday_events two_holidays = Inr ([PStr ''Diwali'', PStr ''Christmas''], PInt 0, PInt 3)"
    by (simp add: holiday_events_def getitem_def lookup_all_def selection_unique_def selection_max_def two_holidays_def series_values_def series_max_def)
  then obtain self where
    ok: "snd (Prophet_init (traced stand_in_engine) (default_args\<lparr>holidays := Some two_holidays\<rparr>))
           = Inr self"
    by (simp add: init_stand_in_traced)
  from init_forwards_configuration [OF ok] he
  have "fst (np self) =
         [NP_init [(''growth'', PStr ''linear''), (''changepoints'', PNone),
                   (''n_changepoints'', PInt 25), (''changepoints_range'', PFloat (4 / 5)),
                   (''yearly_seasonality'', PStr ''auto''), (''weekly_seasonality'', PStr ''auto''),
                   (''daily_seasonality'', PStr ''auto''), (''seasonality_mode'', PStr ''additive''),
                   (''prediction_interval'', PFloat (4 / 5))],
          NP_add_events [PStr ''Diwali'', PStr ''Christmas''] (PInt 0) (PInt 3)]"
    by (simp add: holiday_calls_def super_init_keywords_def default_args_def)
  with ok show ?thesis by blast
qed

subsection \<open>C7: the parameters without an equivalent\<close>

text \<open>
  Claim C7, as amended. The six parameters \<^verbatim>\<open>seasonality_prior_scale\<close>,
  \<^verbatim>\<open>holidays_prior_scale\<close>, \<^verbatim>\<open>changepoint_prior_scale\<close>, \<^verbatim>\<open>mcmc_samples\<close>,
  \<^verbatim>\<open>uncertainty_samples\<close> and \<^verbatim>\<open>stan_backend\<close> never change the outcome of a
  construction: whatever values they are given, the construction raises what it would
  raise and builds what it would build without them, on every engine. A notice is
  logged exactly when one of them is given a value that Python counts as true; a value
  such as \<^verbatim>\<open>0\<close>, \<^verbatim>\<open>0.0\<close>, \<^verbatim>\<open>False\<close> or the empty string is dropped without a notice.
\<close>

theorem unsupported_parameters_are_dropped:
  "snd (Prophet_init eng (a\<lparr>seasonality_prior_scale := v1, holidays_prior_scale := v2,
          changepoint_prior_scale := v3, mcmc_samples := v4, uncertainty_samples := v5,
          stan_backend := v6\<rparr>)) = snd (Prophet_init eng a)
   \<and> (fst (Prophet_init eng a) \<noteq> [] \<longleftrightarrow>
        truthy (seasonality_prior_scale a) \<or> truthy (holidays_prior_scale a) \<or>
        truthy (changepoint_prior_scale a) \<or> truthy (mcmc_samples a) \<or>
        truthy (uncertainty_samples a) \<or> truthy (stan_backend a))"
proof
  show "snd (Prophet_init eng (a\<lparr>seasonality_prior_scale := v1, holidays_prior_scale := v2,
          changepoint_prior_scale := v3, mcmc_samples := v4, uncertainty_samples := v5,
          stan_backend := v6\<rparr>)) = snd (Prophet_init eng a)"
    by (simp add: Prophet_init_def super_init_keywords_def cong: sum.case_cong)
  show "fst (Prophet_init eng a) \<noteq> [] \<longleftrightarrow>
        truthy (seasonality_prior_scale a) \<or> truthy (holidays_prior_scale a) \<or>
        truthy (changepoint_prior_scale a) \<or> truthy (mcmc_samples a) \<or>
        truthy (uncertainty_samples a) \<or> truthy (stan_backend a)"
    by (simp add: Prophet_init_def unsupported_notices_def)
qed

theorem unsupported_parameters_are_dropped_witness:
  "snd (Prophet_init stand_in_engine
          (default_args\<lparr>seasonality_prior_scale := PFloat 10, holidays_prior_scale := PNone,
             changepoint_prior_scale := PNone, mcmc_samples := PInt 100,
             uncertainty_samples := PNone, stan_backend := PStr ''CMDSTANPY''\<rparr>))
     = Inr unfitted
   \<and> fst (Prophet_init stand_in_engine (default_args\<lparr>mcmc_samples := PInt 100\<rparr>)) \<noteq> []"
  using unsupported_parameters_are_dropped [where eng = stand_in_engine and a = default_args
          and ?v1.0 = "PFloat 10" and ?v2.0 = PNone and ?v3.0 = PNone and ?v4.0 = "PInt 100"
          and ?v5.0 = PNone and ?v6.0 = "PStr ''CMDSTANPY''"]
        unsupported_parameters_are_dropped [where eng = stand_in_engine
          and a = "default_args\<lparr>mcmc_samples := PInt 100\<rparr>"]
  by (simp add: unfitted_is_constructed)

text \<open>
  The claim as stated fails: \<^verbatim>\<open>mcmc_samples=0\<close> (the legacy default) is supplied, the
  construction succeeds, and no notice is logged.
\<close>

theorem zero_samples_no_notice_counterexample:
  "fst (Prophet_init stand_in_engine (default_args\<lparr>mcmc_samples := PInt 0\<rparr>)) = []
   \<and> snd (Prophet_init stand_in_engine (default_args\<lparr>mcmc_samples := PInt 0\<rparr>)) = Inr unfitted"
  by (simp add: Prophet_init_def unsupported_notices_def default_args_def super_init_keywords_def
      py_keywords_def py_repeated_def stand_in_engine_def handle_holidays_def unfitted_def)

subsection \<open>C1: the window that is registered for a holiday name\<close>

text \<open>
  Claim C1, as amended. The windows are not kept per name: for a holidays table that
  has been registered, there is one window that is used for every name of the table,
  and its upper bound is the largest \<^verbatim>\<open>upper_window\<close> of the whole table, of whatever
  name. (What line 102 does for the lower bound is \<open>diwali_twice_window\<close> above; it
  is no part of this statement.)
\<close>

theorem holiday_upper_window_is_table_maximum:
  assumes ok: "snd (Prophet_init (traced eng) a) = Inr self"
      and hol: "holidays a = Some hs"
      and names: "getitem hs ''holiday'' = Inr (Column names)"
      and upper: "getitem hs ''upper_window'' = Inr (Column (IntS uppers))" "uppers \<noteq> []"
  shows "\<exists>lower. \<forall>n \<in> set (series_values names).
           init_window eng a n = Some (lower, PInt (Max (set uppers)))"
proof -
  from ok hol obtain ev l u where he: "holiday_events hs = Inr (ev, l, u)"
    by (auto simp: Prophet_init_def handle_holidays_def split: sum.splits prod.splits)
  from he names upper have ev: "ev = unique (series_values names)"
    and u: "u = PInt (Max (set uppers))"
    by (auto simp: holiday_events_def selection_unique_def selection_max_def series_max_def
          list_max_eq_Max split: sum.splits)
  from init_trace [OF ok] hol he
  have "fst (np self) = [NP_init (super_init_keywords a @ kwargs a), NP_add_events ev l u]"
    by (simp add: holiday_calls_def)
  with ok ev u have "\<forall>n \<in> set (series_values names).
           init_window eng a n = Some (l, PInt (Max (set uppers)))"
    by (simp add: init_window_def)
  then show ?thesis ..
qed

theorem holiday_upper_window_is_table_maximum_witness:
  "\<exists>lower. init_window stand_in_engine (default_args\<lparr>holidays := Some two_holidays\<rparr>)
               (PStr ''Diwali'') = Some (lower, PInt 3)
          \<and> init_window stand_in_engine (default_args\<lparr>holidays := Some two_holidays\<rparr>)
               (PStr ''Christmas'') = Some (lower, PInt 3)"
proof -
  have he: "holiday_events two_holidays = Inr ([PStr ''Diwali'', PStr ''Christmas''], PInt 0, PInt 3)"
    by (simp add: holiday_events_def getitem_def lookup_all_def selection_unique_def
          selection_max_def two_holidays_def series_values_def series_max_def)
  then obtain self where
    ok: "snd (Prophet_init (traced stand_in_engine) (default_args\<lparr>holidays := Some two_holidays\<rparr>))
           = Inr self"
    by (simp add: init_stand_in_traced)
  have hol: "holidays (default_args\<lparr>holidays := Some two_holidays\<rparr>) = Some two_holidays"
    by simp
  have names: "getitem two_holidays ''holiday'' = Inr (Column (StrS [''Diwali'', ''Christmas'']))"
    by (simp add: two_holidays_def getitem_def lookup_all_def)
  have upper: "getitem two_holidays ''upper_window'' = Inr (Column (IntS [0, 3]))"
      "[0, 3 :: int] \<noteq> []"
    by (simp_all add: two_holidays_def getitem_def lookup_all_def)
  from holiday_upper_window_is_table_maximum [OF ok hol names upper]
  show ?thesis by (simp add: series_values_def)
qed

text \<open>
  The claim as stated fails: the only occurrence of Diwali has the window from 0 to 0,
  which is the widest window observed for that name, and the window registered for
  Diwali runs from 0 to 3, the upper bound of Christmas.
\<close>

theorem window_is_not_per_name_counterexample:
  "init_window stand_in_engine (default_args\<lparr>holidays := Some two_holidays\<rparr>) (PStr ''Diwali'')
     = Some (PInt 0, PInt 3)
   \<and> spec_effective_window two_holidays ''Diwali'' = Some (0, 0)"
  by (simp add: init_window_def init_stand_in_traced holiday_events_def getitem_def lookup_all_def selection_unique_def selection_max_def
       two_holidays_def series_values_def series_max_def spec_effective_window_def
       holiday_windows_def)

subsection \<open>C6: what the registration of a holidays table checks\<close>

text \<open>
  Claim C6, as amended. A holidays table without the name column \<^verbatim>\<open>holiday\<close> ends the
  construction with an exception: the one of the engine's constructor if that fails,
  and \<^verbatim>\<open>KeyError\<close> for \<^verbatim>\<open>holiday\<close> otherwise. The date column \<^verbatim>\<open>ds\<close> is not looked at
  when the table is registered: taking it out of a table never changes whether the
  construction succeeds. (A table without the window columns is \<open>absent_windows_raise\<close>
  above; it is no part of this statement.)
\<close>

theorem registration_checks_name_not_date:
  "(holidays a = Some hs \<and> ''holiday'' \<notin> set (columns hs) \<longrightarrow>
      snd (Prophet_init eng a) =
        (case py_keywords (super_init_keywords a) (kwargs a) of
           Inl e \<Rightarrow> Inl e
         | Inr kw \<Rightarrow> (case np_init eng kw of Inl e \<Rightarrow> Inl e | Inr s \<Rightarrow> Inl (KeyError ''holiday''))))
   \<and> isl (snd (Prophet_init eng (a\<lparr>holidays := Some (drop_columns [''ds''] hs')\<rparr>)))
       = isl (snd (Prophet_init eng (a\<lparr>holidays := Some hs'\<rparr>)))"
  using init_missing_name [where a = a and hs = hs and eng = eng]
        init_ignores_ds [where a = a and hs = hs' and eng = eng]
  by blast

theorem registration_checks_name_not_date_witness:
  "snd (Prophet_init stand_in_engine (default_args\<lparr>holidays := Some unnamed_holidays\<rparr>))
     = Inl (KeyError ''holiday'')
   \<and> isl (snd (Prophet_init stand_in_engine
              (default_args\<lparr>holidays := Some (drop_columns [''ds''] two_holidays)\<rparr>))) = False"
proof -
  let ?a = "default_args\<lparr>holidays := Some unnamed_holidays\<rparr>"
  have h: "holidays ?a = Some unnamed_holidays \<and> ''holiday'' \<notin> set (columns unnamed_holidays)"
    by (simp add: unnamed_holidays_def columns_def)
  have ok: "isl (snd (Prophet_init stand_in_engine (default_args\<lparr>holidays := Some two_holidays\<rparr>)))
              = False"
    by (simp add: Prophet_init_def default_args_def super_init_keywords_def py_keywords_def py_repeated_def
        stand_in_engine_def handle_holidays_def holiday_events_def getitem_def lookup_all_def selection_unique_def selection_max_def two_holidays_def)
  from registration_checks_name_not_date
         [where a = ?a and hs = unnamed_holidays and eng = stand_in_engine and hs' = two_holidays]
       h ok
  show ?thesis
    by (simp add: default_args_def super_init_keywords_def py_keywords_def py_repeated_def stand_in_engine_def)
qed

text \<open>
  The claim as stated fails: a table with the name and the window columns and without
  the date column is registered, and the construction succeeds.
\<close>

theorem undated_holidays_accepted_counterexample:
  "snd (Prophet_init stand_in_engine (default_args\<lparr>holidays := Some new_year_undated\<rparr>))
     = Inr \<lparr> np = (), events_df = Some [(''event'', StrS [''NewYear''])], name = ''Prophet'',
              history = None, train_holiday_names = PNone \<rparr>"
  by (simp add: Prophet_init_def default_args_def super_init_keywords_def
      py_keywords_def py_repeated_def stand_in_engine_def handle_holidays_def holiday_events_def getitem_def lookup_all_def selection_unique_def selection_max_def
      holidays_events_df_def drop_columns_def rename_columns_def new_year_undated_def)

subsection \<open>C4: what the future frame refuses\<close>

text \<open>
  Claim C4, as amended. The wrapper itself refuses nothing. A number of periods that is
  not positive reaches the engine (times thirty for \<^verbatim>\<open>"M"\<close>), and on an engine that
  extends frames as the specification says the call ends with its
  \<^verbatim>\<open>InvalidArgumentError\<close>, which the wrapper passes on. The frequency is not checked
  at all and is not handed to the engine: every token other than \<^verbatim>\<open>"M"\<close> gives exactly
  what \<^verbatim>\<open>"D"\<close> gives.
\<close>

theorem nonpositive_periods_rejected_frequency_unchecked:
  "(periods \<le> 0 \<and> extends_as_specified eng
      \<and> set (map fst kw) \<inter> {''df'', ''events_df'', ''periods'', ''n_historic_predictions''} = {}
     \<longrightarrow> snd (make_future_dataframe eng self periods freq include_history kw)
           = Inl InvalidArgumentError)
   \<and> (freq' \<noteq> ''M'' \<longrightarrow>
        make_future_dataframe eng' self' periods' freq' include_history' kw'
          = make_future_dataframe eng' self' periods' ''D'' include_history' kw')"
proof (intro conjI impI)
  assume a: "periods \<le> 0 \<and> extends_as_specified eng
      \<and> set (map fst kw) \<inter> {''df'', ''events_df'', ''periods'', ''n_historic_predictions''} = {}"
  then have "(if freq = ''M'' then periods * 30 else periods) \<le> 0" by simp
  with a show "snd (make_future_dataframe eng self periods freq include_history kw)
                 = Inl InvalidArgumentError"
    by (simp add: make_future_dataframe_calls(2) extends_as_specified_def
          spec_make_future_dataframe_def spec_extend_def)
next
  assume "freq' \<noteq> ''M''"
  then show "make_future_dataframe eng' self' periods' freq' include_history' kw'
          = make_future_dataframe eng' self' periods' ''D'' include_history' kw'"
    by (rule make_future_dataframe_freq)
qed

theorem nonpositive_periods_rejected_frequency_unchecked_witness:
  "snd (make_future_dataframe stand_in_engine fitted 0 ''M'' True []) = Inl InvalidArgumentError
   \<and> make_future_dataframe stand_in_engine fitted 5 ''W'' True []
       = make_future_dataframe stand_in_engine fitted 5 ''D'' True []"
  using nonpositive_periods_rejected_frequency_unchecked
          [where periods = 0 and eng = stand_in_engine and kw = "[]" and self = fitted
             and freq = "''M''" and include_history = True and freq' = "''W''"
             and eng' = stand_in_engine and self' = fitted and periods' = 5
             and include_history' = True and kw' = "[]"]
        stand_in_extends
  by simp

text \<open>
  The claim as stated fails: a token that names no frequency is accepted, and the
  frame is extended by one day.
\<close>

theorem unknown_frequency_accepted_counterexample:
  "snd (make_future_dataframe stand_in_engine fitted 1 ''fortnight'' False [])
     = Inr [(''ds'', DateS [19361])]"
  by (simp add: make_future_dataframe_def fitted_def unfitted_def py_keywords_def py_repeated_def
        stand_in_engine_def spec_make_future_dataframe_def spec_extend_def frame_dates_def
        example_history_def)

subsection \<open>C5: no history\<close>

text \<open>
  Claim C5, as amended. The wrapper checks nowhere that there is a history. Before a
  fit has succeeded (\<^verbatim>\<open>self.history\<close> is \<^verbatim>\<open>None\<close>), \<^verbatim>\<open>predict\<close> without a frame fails, on
  every engine and before the engine is called, with the \<^verbatim>\<open>AttributeError\<close> of
  \<^verbatim>\<open>None.copy()\<close>, which is not a prerequisite error of its own. A stored history,
  with or without rows, is handed to the engine exactly as a frame passed by the caller
  is. \<^verbatim>\<open>make_future_dataframe\<close> hands the stored history, \<^verbatim>\<open>None\<close> included, to the
  engine and returns what the engine returns or raises.
\<close>

theorem history_is_not_checked:
  "(history self = None \<longrightarrow>
      predict eng self None kw = (self, Inl (AttributeError ''copy'')))
   \<and> (history self' = Some h \<longrightarrow>
        predict eng' self' None kw' = predict eng' self' (Some h) kw')
   \<and> (set (map fst kw'') \<inter> {''df'', ''events_df'', ''periods'', ''n_historic_predictions''} = {}
        \<longrightarrow> snd (make_future_dataframe eng'' self'' periods freq include_history kw'')
              = snd (np_make_future_dataframe eng'' (np self'') (history self'') (events_df self'')
                      (if freq = ''M'' then periods * 30 else periods) include_history kw''))"
proof (intro conjI impI)
  assume "history self = None"
  then show "predict eng self None kw = (self, Inl (AttributeError ''copy''))"
    by (simp add: predict_def)
next
  assume "history self' = Some h"
  then show "predict eng' self' None kw' = predict eng' self' (Some h) kw'"
    by (simp add: predict_def)
next
  assume "set (map fst kw'') \<inter> {''df'', ''events_df'', ''periods'', ''n_historic_predictions''} = {}"
  then show "snd (make_future_dataframe eng'' self'' periods freq include_history kw'')
              = snd (np_make_future_dataframe eng'' (np self'') (history self'') (events_df self'')
                      (if freq = ''M'' then periods * 30 else periods) include_history kw'')"
    by (rule make_future_dataframe_calls(2))
qed

theorem history_is_not_checked_witness:
  "predict stand_in_engine unfitted None [] = (unfitted, Inl (AttributeError ''copy''))
   \<and> predict (traced stand_in_engine) emptied_traced None []
       = predict (traced stand_in_engine) emptied_traced (Some empty_history) []
   \<and> snd (make_future_dataframe stand_in_engine unfitted 5 ''D'' True [])
       = snd (np_make_future_dataframe stand_in_engine () None None 5 True [])"
  using history_is_not_checked
          [where self = unfitted and eng = stand_in_engine and kw = "[]"
             and self' = emptied_traced and h = empty_history
             and eng' = "traced stand_in_engine" and kw' = "[]"
             and kw'' = "[]" and eng'' = stand_in_engine and self'' = unfitted
             and periods = 5 and freq = "''D''" and include_history = True]
  by (simp add: unfitted_def emptied_traced_def)

text \<open>
  The claim as stated fails. On an object that was never fitted, \<^verbatim>\<open>predict\<close> without a
  frame ends with \<^verbatim>\<open>AttributeError\<close>, not with a prerequisite error. On an object whose
  stored history has no rows, \<^verbatim>\<open>predict\<close> without a frame does not fail in the wrapper:
  the empty frame reaches the engine (the one call recorded), and what the engine
  returns for it is returned.
\<close>

theorem predict_without_history_counterexample:
  "predict stand_in_engine unfitted None [] = (unfitted, Inl (AttributeError ''copy''))
   \<and> AttributeError ''copy'' \<noteq> PrerequisiteError
   \<and> predict (traced stand_in_engine) emptied_traced None []
       = (emptied_traced\<lparr>np := ([NP_predict empty_history []], ())\<rparr>, Inr empty_history)"
  by (simp add: predict_def unfitted_def emptied_traced_def empty_history_def stand_in_engine_def
        record_call_def columns_def)

subsection \<open>C10: prediction keeps the engine's columns\<close>

text \<open>
  Claim C10, as amended. Let the engine's predictions table be one in which \<^verbatim>\<open>event_\<close>
  occurs in a label only as its prefix, each label with that prefix stands for one
  column, and the name behind the prefix is not itself a label of the table. Then the
  frame that \<^verbatim>\<open>predict\<close> returns is the engine's table, every column under its label,
  in its place and with its values, followed by one copy of each column with the
  prefix, in the order of the table, under its label without the prefix: both versions
  of each event component are there.
\<close>

theorem predict_appends_event_copies:
  assumes "df = Some d \<or> (df = None \<and> history self = Some d)"
      and "np_predict eng (np self) d kw = (s1, Inr tbl)"
      and "event_columns_plain tbl"
  shows "predict eng self df kw = (self\<lparr>np := s1\<rparr>, Inr (tbl @ spec_renamed_view tbl))"
  using predict_input [OF assms(1,2)] copy_event_columns_plain [OF assms(3)] by simp

text \<open>
  The stand-in engine returns the frame it is asked to predict on, so the frame passed
  below is the engine's table.
\<close>

theorem predict_appends_event_copies_witness:
  "predict stand_in_engine fitted (Some example_forecast) []
     = (fitted, Inr [(''ds'', DateS [19361]), (''trend'', FloatS [10]),
                     (''event_Diwali'', FloatS [1 / 2]), (''Diwali'', FloatS [1 / 2])])"
proof -
  have 1: "Some example_forecast = Some example_forecast
             \<or> (Some example_forecast = None \<and> history fitted = Some example_forecast)"
    by simp
  have 2: "np_predict stand_in_engine (np fitted) example_forecast [] = ((), Inr example_forecast)"
    by (simp add: stand_in_engine_def)
  from predict_appends_event_copies [OF 1 2 example_forecast_plain]
  show ?thesis
    by (simp add: spec_renamed_view_def example_forecast_def fitted_def unfitted_def)
qed

text \<open>
  The claim as stated fails: for a holiday called \<^verbatim>\<open>trend\<close> the loop writes the values
  of \<^verbatim>\<open>event_trend\<close> into the engine's column \<^verbatim>\<open>trend\<close>, which therefore does not come
  back unchanged, and no column is added.
\<close>

theorem predict_overwrites_column_counterexample:
  "snd (predict stand_in_engine fitted
          (Some [(''ds'', DateS [19361]), (''trend'', FloatS [10]),
                 (''event_trend'', FloatS [1 / 2])]) [])
     = Inr [(''ds'', DateS [19361]), (''trend'', FloatS [1 / 2]),
            (''event_trend'', FloatS [1 / 2])]"
  by (simp add: predict_def stand_in_engine_def columns_def getitem_def lookup_all_def setitem_def)

subsection \<open>C8: the renamed view of the event components\<close>

text \<open>
  Claim C8. For each column of the engine's table whose label carries the prefix
  \<^verbatim>\<open>event_\<close>, the frame that \<^verbatim>\<open>predict\<close> returns is to hold a column under the label
  without the prefix, with the same values. The code departs from this: line 219 takes
  every \<^verbatim>\<open>event_\<close> out of the label, not the prefix only. For a holiday called
  \<^verbatim>\<open>big_event_day\<close> the engine's column is \<^verbatim>\<open>event_big_event_day\<close>; the frame that comes
  back has a column \<^verbatim>\<open>big_day\<close> and none labelled \<^verbatim>\<open>big_event_day\<close>.
\<close>

theorem predict_strips_inner_event:
  "snd (predict stand_in_engine fitted
          (Some [(''ds'', DateS [19361]), (''event_big_event_day'', FloatS [1 / 2])]) [])
     = Inr [(''ds'', DateS [19361]), (''event_big_event_day'', FloatS [1 / 2]),
            (''big_day'', FloatS [1 / 2])]
   \<and> spec_renamed_view [(''ds'', DateS [19361]), (''event_big_event_day'', FloatS [1 / 2])]
     = [(''big_event_day'', FloatS [1 / 2])]"
  by (simp add: predict_def stand_in_engine_def columns_def getitem_def lookup_all_def setitem_def
        spec_renamed_view_def)

end
